theory Spec2Isabelle
  imports Complex_Main
begin

section \<open>Python values\<close>

text \<open>
  The client stores and compares arbitrary Python values (configuration values, parsed
  JSON bodies, message contents).  A float is modelled by the exact rational it denotes,
  or one of the three special values; \<open>0.0\<close> and \<open>-0.0\<close> are identified, as Python's
  \<open>==\<close> identifies them.  A dictionary is an association list in insertion order with
  string keys (the keys of keyword arguments and of JSON objects).
\<close>

datatype pyfloat = Finite rat | PosInf | NegInf | NaN

datatype pyval =
    PNone
  | PBool bool
  | PInt int
  | PFloat pyfloat
  | PStr string
  | PList "pyval list"
  | PDict "(string \<times> pyval) list"

datatype pytype = TNone | TBool | TInt | TFloat | TStr | TList | TDict

text \<open>\<open>type(v)\<close>.\<close>

fun type_py :: "pyval \<Rightarrow> pytype" where
  "type_py PNone = TNone"
| "type_py (PBool b) = TBool"
| "type_py (PInt i) = TInt"
| "type_py (PFloat f) = TFloat"
| "type_py (PStr s) = TStr"
| "type_py (PList xs) = TList"
| "type_py (PDict kvs) = TDict"

text \<open>\<open>isinstance(v, t)\<close> for the built-in types: \<open>bool\<close> is a subclass of \<open>int\<close>.\<close>

definition isinstance_py :: "pyval \<Rightarrow> pytype \<Rightarrow> bool" where
  "isinstance_py v t = (type_py v = t \<or> (type_py v = TBool \<and> t = TInt))"

text \<open>The number a numeric value denotes; \<open>True\<close> is 1 and \<open>False\<close> is 0.\<close>

fun numeric :: "pyval \<Rightarrow> pyfloat option" where
  "numeric (PBool b) = Some (Finite (if b then 1 else 0))"
| "numeric (PInt i) = Some (Finite (of_int i))"
| "numeric (PFloat f) = Some f"
| "numeric v = None"

fun float_eq :: "pyfloat \<Rightarrow> pyfloat \<Rightarrow> bool" where
  "float_eq (Finite a) (Finite b) = (a = b)"
| "float_eq PosInf PosInf = True"
| "float_eq NegInf NegInf = True"
| "float_eq a b = False"

text \<open>
  \<open>a == b\<close>.  Numbers compare by value across \<open>bool\<close>, \<open>int\<close> and \<open>float\<close>
  (\<open>nan\<close> equals nothing); lists compare by length and then element by element;
  dictionaries by size and then key by key; values of unrelated types are unequal.
\<close>

fun py_eq :: "pyval \<Rightarrow> pyval \<Rightarrow> bool"
  and py_eq_list :: "pyval list \<Rightarrow> pyval list \<Rightarrow> bool"
  and py_eq_items :: "(string \<times> pyval) list \<Rightarrow> (string \<times> pyval) list \<Rightarrow> bool"
where
  "py_eq PNone b = (b = PNone)"
| "py_eq (PBool x) b = (case numeric b of Some g \<Rightarrow> float_eq (Finite (if x then 1 else 0)) g | None \<Rightarrow> False)"
| "py_eq (PInt i) b = (case numeric b of Some g \<Rightarrow> float_eq (Finite (of_int i)) g | None \<Rightarrow> False)"
| "py_eq (PFloat f) b = (case numeric b of Some g \<Rightarrow> float_eq f g | None \<Rightarrow> False)"
| "py_eq (PStr s) b = (b = PStr s)"
| "py_eq (PList xs) b = (case b of PList ys \<Rightarrow> length xs = length ys \<and> py_eq_list xs ys | _ \<Rightarrow> False)"
| "py_eq (PDict kvs) b = (case b of PDict kws \<Rightarrow> length kvs = length kws \<and> py_eq_items kvs kws | _ \<Rightarrow> False)"
| "py_eq_list [] ys = (ys = [])"
| "py_eq_list (x # xs) ys = (case ys of [] \<Rightarrow> False | y # ys' \<Rightarrow> py_eq x y \<and> py_eq_list xs ys')"
| "py_eq_items [] kws = True"
| "py_eq_items (kv # kvs) kws =
     (case map_of kws (fst kv) of
        None \<Rightarrow> False
      | Some w \<Rightarrow> py_eq (snd kv) w \<and> py_eq_items kvs kws)"

text \<open>\<open>a != b\<close>.\<close>

definition py_ne :: "pyval \<Rightarrow> pyval \<Rightarrow> bool" where
  "py_ne a b = (\<not> py_eq a b)"

text \<open>The truth value of \<open>v\<close> in a condition (\<open>if v\<close>, \<open>not v\<close>, \<open>v or w\<close>).\<close>

fun truthy :: "pyval \<Rightarrow> bool" where
  "truthy PNone = False"
| "truthy (PBool b) = b"
| "truthy (PInt i) = (i \<noteq> 0)"
| "truthy (PFloat f) = (f \<noteq> Finite 0)"
| "truthy (PStr s) = (s \<noteq> [])"
| "truthy (PList xs) = (xs \<noteq> [])"
| "truthy (PDict kvs) = (kvs \<noteq> [])"

text \<open>\<open>d[k] = v\<close> on a dictionary: an existing key keeps its place, a new key goes last.\<close>

fun dict_set :: "(string \<times> pyval) list \<Rightarrow> string \<Rightarrow> pyval \<Rightarrow> (string \<times> pyval) list" where
  "dict_set [] k v = [(k, v)]"
| "dict_set (p # ps) k v = (if fst p = k then (k, v) # ps else p # dict_set ps k v)"

text \<open>\<open>{**a, **b}\<close>: the entries of \<open>b\<close> written into \<open>a\<close> one after the other.\<close>

definition dict_merge :: "(string \<times> pyval) list \<Rightarrow> (string \<times> pyval) list \<Rightarrow> (string \<times> pyval) list" where
  "dict_merge a b = fold (\<lambda>kv d. dict_set d (fst kv) (snd kv)) b a"

section \<open>Exceptions\<close>

text \<open>
  A message is kept as the sequence of the pieces its f-string is built from, so that no
  rendering of numbers or of Python values has to be invented: literal text, a formatted
  integer, a formatted value, the formatted type of a value.
\<close>

datatype msg_part = Lit string | IntStr int | ValStr pyval | TypeStr pyval

type_synonym message = "msg_part list"

text \<open>
  The exceptions of \<open>exceptions.py\<close> and the built-in ones the client can raise.
  \<open>PerplexityAPIError\<close> carries its \<open>status_code\<close> field; the two other classes only
  keep their constructor arguments (a message, and a status code where one is passed).
  An exception raised by the interpreter itself carries no message here.
\<close>

datatype error =
    TypeError message
  | ValueError message
  | KeyError
  | IndexError
  | AttributeError
  | PerplexityAPIError message "int option"
  | PerplexityAuthError message "int option"
  | PerplexityConfigError message "int option"

section \<open>Configuration\<close>

text \<open>\<open>Perplexity.default_config\<close>; the two float literals are the doubles they denote.\<close>

definition default_config :: "(string \<times> pyval) list" where
  "default_config =
    [(''max_tokens'', PNone),
     (''temperature'', PFloat (Finite (3602879701896397 / 18014398509481984))),
     (''top_p'', PFloat (Finite (8106479329266893 / 9007199254740992))),
     (''search_domain_filter'', PList []),
     (''return_images'', PBool False),
     (''return_related_questions'', PBool False),
     (''search_recency_filter'', PStr ''month''),
     (''top_k'', PInt 0),
     (''stream'', PBool False),
     (''presence_penalty'', PInt 0),
     (''frequency_penalty'', PInt 1)]"

text \<open>\<open>default_config.get(key)\<close>: \<open>None\<close> for a key that is not there.\<close>

definition default_get :: "string \<Rightarrow> pyval" where
  "default_get key = (case map_of default_config key of Some d \<Rightarrow> d | None \<Rightarrow> PNone)"

text \<open>The loop of \<open>validate_config\<close> over \<open>config.items()\<close>: the first violation raises.\<close>

fun validate_items :: "(string \<times> pyval) list \<Rightarrow> error + unit" where
  "validate_items [] = Inr ()"
| "validate_items (kv # rest) =
     (case map_of default_config (fst kv) of
        None \<Rightarrow> Inl (PerplexityConfigError [Lit ''Invalid configuration key: '', Lit (fst kv)] None)
      | Some d \<Rightarrow>
          if d \<noteq> PNone \<and> \<not> isinstance_py (snd kv) (type_py d)
          then Inl (PerplexityConfigError [Lit ''Invalid configuration value for key: '', Lit (fst kv)] None)
          else validate_items rest)"

text \<open>\<open>validate_config(config)\<close>, a class method: its argument can be any value.\<close>

fun validate_config :: "pyval \<Rightarrow> error + unit" where
  "validate_config (PDict kvs) = validate_items kvs"
| "validate_config v = Inl (TypeError [Lit ''The configuration must be a dictionary''])"

text \<open>\<open>is_config_valid(config)\<close>: only \<open>PerplexityConfigError\<close> is caught.\<close>

definition is_config_valid :: "pyval \<Rightarrow> error + bool" where
  "is_config_valid config =
     (case validate_config config of
        Inr u \<Rightarrow> Inr True
      | Inl (PerplexityConfigError m c) \<Rightarrow> Inr False
      | Inl e \<Rightarrow> Inl e)"

section \<open>The client\<close>

text \<open>One entry of \<open>chat_history\<close>.\<close>

record turn =
  role :: string
  content :: pyval

text \<open>
  The attributes of a \<open>Perplexity\<close> object; \<open>private_config\<close> is the name-mangled
  \<open>__config\<close>.  The HTTP session holds no state the methods below read.
\<close>

record client =
  auth_token :: string
  model :: string
  system_role :: string
  chat_history :: "turn list"
  private_config :: "(string \<times> pyval) list"

text \<open>\<open>a or b\<close> on an optional string: \<open>None\<close> and the empty string give \<open>b\<close>.\<close>

fun str_or :: "string option \<Rightarrow> string \<Rightarrow> string" where
  "str_or None b = b"
| "str_or (Some a) b = (if a = [] then b else a)"

definition validate_required_params ::
  "client \<Rightarrow> string option \<Rightarrow> string option \<Rightarrow> string option \<Rightarrow> error + unit" where
  "validate_required_params self api_key_arg model_arg system_role_arg =
     (let api_key = str_or api_key_arg (auth_token self);
          model_name = str_or model_arg (model self);
          role_name = str_or system_role_arg (system_role self)
      in if api_key = [] then Inl (PerplexityAuthError [Lit ''API key is required''] None)
         else if model_name = [] then Inl (PerplexityConfigError [Lit ''Model name is required''] None)
         else if role_name = [] then Inl (PerplexityConfigError [Lit ''System role is required''] None)
         else Inr ())"

text \<open>The loop of \<open>_validate_and_set_config\<close>: only a value unequal to its default is written.\<close>

definition store_items :: "(string \<times> pyval) list \<Rightarrow> (string \<times> pyval) list \<Rightarrow> (string \<times> pyval) list" where
  "store_items stored kvs =
     fold (\<lambda>kv d. if py_ne (snd kv) (default_get (fst kv)) then dict_set d (fst kv) (snd kv) else d)
       kvs stored"

text \<open>
  \<open>_validate_and_set_config(config)\<close>: the outcome and the object afterwards.  Validation
  comes before the first write, so a call that raises leaves the object as it was.
\<close>

definition validate_and_set_config :: "client \<Rightarrow> pyval \<Rightarrow> (error + unit) \<times> client" where
  "validate_and_set_config self config =
     (case validate_config config of
        Inl e \<Rightarrow> (Inl e, self)
      | Inr u \<Rightarrow>
          (case config of
             PDict kvs \<Rightarrow> (Inr (), self\<lparr>private_config := store_items (private_config self) kvs\<rparr>)
           | _ \<Rightarrow> (Inl AttributeError, self)))"

text \<open>\<open>_get_validated_config(config)\<close>.\<close>

definition get_validated_config :: "pyval \<Rightarrow> error + (string \<times> pyval) list" where
  "get_validated_config config =
     (case validate_config config of
        Inl e \<Rightarrow> Inl e
      | Inr u \<Rightarrow>
          (case config of
             PDict kvs \<Rightarrow> Inr (filter (\<lambda>kv. py_ne (snd kv) (default_get (fst kv))) kvs)
           | _ \<Rightarrow> Inl AttributeError))"

text \<open>The \<open>config\<close> property, which the specification calls \<open>get_config()\<close>.\<close>

definition config :: "client \<Rightarrow> (string \<times> pyval) list" where
  "config self = filter (\<lambda>kv. snd kv \<noteq> PNone) (dict_merge default_config (private_config self))"

text \<open>\<open>set_config(**kwargs)\<close>: the keyword arguments arrive as a dictionary.\<close>

definition set_config :: "client \<Rightarrow> (string \<times> pyval) list \<Rightarrow> (error + unit) \<times> client" where
  "set_config self kwargs = validate_and_set_config self (PDict kwargs)"

definition reset_config :: "client \<Rightarrow> client" where
  "reset_config self = self\<lparr>private_config := []\<rparr>"

text \<open>
  A sequence of \<open>set_config\<close> calls on one object, each with its own keyword arguments;
  the caller goes on after a call that raised.
\<close>

definition set_config_calls :: "client \<Rightarrow> (string \<times> pyval) list list \<Rightarrow> client" where
  "set_config_calls self calls = fold (\<lambda>kwargs s. snd (set_config s kwargs)) calls self"

text \<open>
  \<open>__init__(api_key, model, system_role, config)\<close>: the new object, or the exception.
  \<open>config\<close> is \<open>PNone\<close> when the argument is left out.
\<close>

definition init :: "string \<Rightarrow> string \<Rightarrow> string \<Rightarrow> pyval \<Rightarrow> error + client" where
  "init api_key model_name role_name config_arg =
     (let self0 = \<lparr>auth_token = api_key, model = model_name, system_role = role_name,
                   chat_history = [], private_config = []\<rparr>
      in case validate_required_params self0 None None None of
           Inl e \<Rightarrow> Inl e
         | Inr u \<Rightarrow>
             (let self1 = self0\<lparr>chat_history := [\<lparr>role = ''system'', content = PStr (system_role self0)\<rparr>]\<rparr>
              in if config_arg \<noteq> PNone
                 then (case validate_and_set_config self1 config_arg of
                         (Inl e, s) \<Rightarrow> Inl e
                       | (Inr u', s) \<Rightarrow> Inr s)
                 else Inr self1))"

section \<open>Response types\<close>

datatype ResponseFormatType = RAW | TEXT | JSON | LLM_RESPONSE

fun member_value :: "ResponseFormatType \<Rightarrow> string" where
  "member_value RAW = ''raw''"
| "member_value TEXT = ''text''"
| "member_value JSON = ''json''"
| "member_value LLM_RESPONSE = ''llm_response''"

definition member_values :: "string list" where
  "member_values = map member_value [RAW, TEXT, JSON, LLM_RESPONSE]"

text \<open>A \<open>response_type\<close> argument: a member of the enumeration, or any other value.\<close>

datatype rt_arg = AsMember ResponseFormatType | AsValue pyval

text \<open>
  \<open>ResponseFormatType.validate_response_type\<close>: a member is looked up to itself, a string
  is looked up among the members' values, anything else is a \<open>TypeError\<close>.
\<close>

fun validate_response_type :: "rt_arg \<Rightarrow> error + unit" where
  "validate_response_type (AsMember m) = Inr ()"
| "validate_response_type (AsValue (PStr s)) =
     (if s \<in> set member_values then Inr ()
      else Inl (ValueError [Lit ''Invalid response_type: '', ValStr (PStr s),
                            Lit ''. Valid options are: '', ValStr (PList (map PStr member_values))]))"
| "validate_response_type (AsValue v) =
     Inl (TypeError [Lit ''Invalid argument type: '', TypeStr v,
                     Lit ''. Expected str or ResponseFormatType''])"

section \<open>The HTTP library\<close>

text \<open>
  What the client reads of a \<open>requests.Response\<close>: the status code, the reason phrase and
  the URL (they are in the text of an \<open>HTTPError\<close>), the body text, and the body parsed by
  \<open>json()\<close>, where \<open>None\<close> stands for the \<open>ValueError\<close> of a body that does not parse.
\<close>

record response =
  status_code :: int
  reason :: string
  url :: string
  body_text :: string
  body_json :: "pyval option"

text \<open>A \<open>requests.exceptions.RequestException\<close>: its text and its \<open>response\<close> attribute.\<close>

record request_exception =
  exc_str :: message
  exc_response :: "response option"

text \<open>What one call of \<open>session.request\<close> does: it returns a response or raises.\<close>

datatype outcome = Returns response | Raises request_exception

text \<open>
  \<open>Response.raise_for_status()\<close> of the library raises an \<open>HTTPError\<close> carrying the
  response for a status from 400 to 599 and returns otherwise; \<open>Response.ok\<close> is true
  when it does not raise.
\<close>

definition raise_for_status :: "response \<Rightarrow> request_exception option" where
  "raise_for_status r =
     (if 400 \<le> status_code r \<and> status_code r < 500
      then Some \<lparr>exc_str = [IntStr (status_code r), Lit '' Client Error: '', Lit (reason r),
                              Lit '' for url: '', Lit (url r)],
                  exc_response = Some r\<rparr>
      else if 500 \<le> status_code r \<and> status_code r < 600
      then Some \<lparr>exc_str = [IntStr (status_code r), Lit '' Server Error: '', Lit (reason r),
                              Lit '' for url: '', Lit (url r)],
                  exc_response = Some r\<rparr>
      else None)"

definition ok :: "response \<Rightarrow> bool" where
  "ok r = (raise_for_status r = None)"

text \<open>The body of a request: \<open>model\<close>, \<open>messages\<close> and the configuration entries.\<close>

record payload =
  p_model :: string
  p_messages :: "turn list"
  p_options :: "(string \<times> pyval) list"

type_synonym transport = "payload \<Rightarrow> outcome"

section \<open>Formatting a response\<close>

text \<open>\<open>obj[key]\<close> with a string key.\<close>

fun subscript_str :: "pyval \<Rightarrow> string \<Rightarrow> error + pyval" where
  "subscript_str (PDict kvs) k = (case map_of kvs k of Some v \<Rightarrow> Inr v | None \<Rightarrow> Inl KeyError)"
| "subscript_str v k = Inl (TypeError [])"

text \<open>\<open>obj[0]\<close>; a dictionary with string keys has no key \<open>0\<close>.\<close>

fun subscript_zero :: "pyval \<Rightarrow> error + pyval" where
  "subscript_zero (PList xs) = (case xs of [] \<Rightarrow> Inl IndexError | x # rest \<Rightarrow> Inr x)"
| "subscript_zero (PStr s) = (case s of [] \<Rightarrow> Inl IndexError | c # rest \<Rightarrow> Inr (PStr [c]))"
| "subscript_zero (PDict kvs) = Inl KeyError"
| "subscript_zero v = Inl (TypeError [])"

fun and_then :: "error + 'a \<Rightarrow> ('a \<Rightarrow> error + 'b) \<Rightarrow> error + 'b" where
  "and_then (Inl e) f = Inl e"
| "and_then (Inr x) f = f x"

text \<open>\<open>json_data["choices"][0]["message"]["content"]\<close>.\<close>

definition content_path :: "pyval \<Rightarrow> error + pyval" where
  "content_path json_data =
     and_then (subscript_str json_data ''choices'') (\<lambda>choices.
     and_then (subscript_zero choices) (\<lambda>first.
     and_then (subscript_str first ''message'') (\<lambda>msg.
     subscript_str msg ''content'')))"

text \<open>The dictionary \<open>_format_response\<close> builds, one field for each of its four keys.\<close>

record formatted =
  raw :: response
  text_view :: string
  json_view :: pyval
  llm_response :: pyval

text \<open>
  \<open>_format_response(response)\<close>: \<open>ValueError\<close> and \<open>KeyError\<close> are caught and leave both
  parsed views \<open>None\<close>; any other exception of the subscripts leaves the method.
\<close>

definition format_response :: "response \<Rightarrow> error + formatted" where
  "format_response r =
     (let unparsed = \<lparr>raw = r, text_view = body_text r, json_view = PNone, llm_response = PNone\<rparr>
      in case body_json r of
           None \<Rightarrow> Inr unparsed
         | Some json_data \<Rightarrow>
             (case content_path json_data of
                Inr c \<Rightarrow> Inr \<lparr>raw = r, text_view = body_text r, json_view = json_data, llm_response = c\<rparr>
              | Inl KeyError \<Rightarrow> Inr unparsed
              | Inl (ValueError m) \<Rightarrow> Inr unparsed
              | Inl e \<Rightarrow> Inl e))"

text \<open>What a method returns: the response object itself, or a value.\<close>

datatype view = RawView response | ValueView pyval

text \<open>
  \<open>formatted_response[response_type]\<close>: the four keys are strings, so a member of the
  enumeration is not among them, and a list or a dictionary cannot be a key at all.
\<close>

fun select_view :: "formatted \<Rightarrow> rt_arg \<Rightarrow> error + view" where
  "select_view f (AsMember m) = Inl KeyError"
| "select_view f (AsValue (PStr s)) =
     (if s = ''raw'' then Inr (RawView (raw f))
      else if s = ''text'' then Inr (ValueView (PStr (text_view f)))
      else if s = ''json'' then Inr (ValueView (json_view f))
      else if s = ''llm_response'' then Inr (ValueView (llm_response f))
      else Inl KeyError)"
| "select_view f (AsValue (PList xs)) = Inl (TypeError [])"
| "select_view f (AsValue (PDict kvs)) = Inl (TypeError [])"
| "select_view f (AsValue v) = Inl KeyError"

section \<open>Classifying a failed request\<close>

text \<open>The text \<open>_raise_error_message\<close> builds.\<close>

definition error_msg :: "request_exception \<Rightarrow> message" where
  "error_msg e =
     [Lit ''Request failed: ''] @ exc_str e @
     (case exc_response e of
        None \<Rightarrow> []
      | Some r \<Rightarrow>
          [Lit [CHR 0x0A], Lit ''Status code: '', IntStr (status_code r)] @
          (case body_json r of
             Some j \<Rightarrow> [Lit [CHR 0x0A], Lit ''Response: '', ValStr j]
           | None \<Rightarrow> [Lit [CHR 0x0A], Lit ''Response: '', Lit (body_text r)]))"

text \<open>\<open>_raise_error_message(e)\<close> always raises; this is the exception it raises.\<close>

definition raise_error_message :: "request_exception \<Rightarrow> error" where
  "raise_error_message e =
     (case exc_response e of
        Some r \<Rightarrow>
          if status_code r = 400 then PerplexityConfigError (error_msg e) (Some (status_code r))
          else if status_code r = 401 then PerplexityAuthError (error_msg e) (Some (status_code r))
          else PerplexityAPIError (error_msg e) (Some (status_code r))
      | None \<Rightarrow> PerplexityAPIError (error_msg e) None)"

section \<open>ask and chat\<close>

definition user_turn :: "string \<Rightarrow> turn" where
  "user_turn message = \<lparr>role = ''user'', content = PStr message\<rparr>"

definition assistant_turn :: "pyval \<Rightarrow> turn" where
  "assistant_turn c = \<lparr>role = ''assistant'', content = c\<rparr>"

text \<open>The checks of \<open>ask\<close> before the request, in the order of the source, and its payload.\<close>

definition ask_payload ::
  "client \<Rightarrow> string \<Rightarrow> string option \<Rightarrow> string option \<Rightarrow> rt_arg \<Rightarrow> (string \<times> pyval) list
     \<Rightarrow> error + payload" where
  "ask_payload self message model_arg system_role_arg response_type config_kw =
     (let model_name = str_or model_arg (model self);
          role_name = str_or system_role_arg (system_role self)
      in case validate_required_params self None (Some model_name) (Some role_name) of
           Inl e \<Rightarrow> Inl e
         | Inr u \<Rightarrow>
             (case get_validated_config (PDict config_kw) of
                Inl e \<Rightarrow> Inl e
              | Inr cfg \<Rightarrow>
                  (case validate_response_type response_type of
                     Inl e \<Rightarrow> Inl e
                   | Inr u' \<Rightarrow>
                       Inr \<lparr>p_model = model_name,
                            p_messages = [\<lparr>role = ''system'', content = PStr role_name\<rparr>,
                                          user_turn message],
                            p_options = cfg\<rparr>)))"

definition ask ::
  "client \<Rightarrow> transport \<Rightarrow> string \<Rightarrow> string option \<Rightarrow> string option \<Rightarrow> bool \<Rightarrow> rt_arg
     \<Rightarrow> (string \<times> pyval) list \<Rightarrow> (error + view) \<times> client" where
  "ask self send message model_arg system_role_arg append_history response_type config_kw =
     (case ask_payload self message model_arg system_role_arg response_type config_kw of
        Inl e \<Rightarrow> (Inl e, self)
      | Inr p \<Rightarrow>
          (case send p of
             Raises e \<Rightarrow> (Inl (raise_error_message e), self)
           | Returns r \<Rightarrow>
               if ok r then
                 (case format_response r of
                    Inl e \<Rightarrow> (Inl e, self)
                  | Inr f \<Rightarrow>
                      (let self' =
                         (if append_history \<and> truthy (llm_response f)
                          then self\<lparr>chat_history := chat_history self @
                                 [user_turn message, assistant_turn (llm_response f)]\<rparr>
                          else self)
                       in case select_view f response_type of
                            Inl e \<Rightarrow> (Inl e, self')
                          | Inr v \<Rightarrow> (Inr v, self')))
               else
                 (case raise_for_status r of
                    Some e \<Rightarrow> (Inl (raise_error_message e), self)
                  | None \<Rightarrow> (Inr (ValueView PNone), self))))"

text \<open>The checks of \<open>chat\<close> before it touches the history.\<close>

definition chat_checks :: "client \<Rightarrow> rt_arg \<Rightarrow> error + unit" where
  "chat_checks self response_type =
     (case validate_response_type response_type of
        Inl e \<Rightarrow> Inl e
      | Inr u \<Rightarrow> validate_required_params self None None None)"

text \<open>The object once \<open>chat\<close> has appended the user turn, and the payload it then sends.\<close>

definition chat_appended :: "client \<Rightarrow> string \<Rightarrow> client" where
  "chat_appended self message = self\<lparr>chat_history := chat_history self @ [user_turn message]\<rparr>"

definition chat_payload :: "client \<Rightarrow> payload" where
  "chat_payload self = \<lparr>p_model = model self, p_messages = chat_history self,
                         p_options = private_config self\<rparr>"

definition chat :: "client \<Rightarrow> transport \<Rightarrow> string \<Rightarrow> rt_arg \<Rightarrow> (error + view) \<times> client" where
  "chat self send message response_type =
     (case chat_checks self response_type of
        Inl e \<Rightarrow> (Inl e, self)
      | Inr u \<Rightarrow>
          (let self1 = chat_appended self message
           in case send (chat_payload self1) of
                Raises e \<Rightarrow> (Inl (raise_error_message e), self1)
              | Returns r \<Rightarrow>
                  if ok r then
                    (case format_response r of
                       Inl e \<Rightarrow> (Inl e, self1)
                     | Inr f \<Rightarrow>
                         (let self2 =
                            (if truthy (llm_response f)
                             then self1\<lparr>chat_history := chat_history self1 @
                                    [assistant_turn (llm_response f)]\<rparr>
                             else self1)
                          in case select_view f response_type of
                               Inl e \<Rightarrow> (Inl e, self2)
                             | Inr v \<Rightarrow> (Inr v, self2)))
                  else
                    (case raise_for_status r of
                       Some e \<Rightarrow> (Inl (raise_error_message e), self1)
                     | None \<Rightarrow> (Inr (ValueView PNone), self1))))"


section \<open>Example objects and servers\<close>

text \<open>The client of the unit tests, as \<open>Perplexity("test-api-key", "test-model", "test-role")\<close> leaves it.\<close>

definition test_client :: client where
  "test_client = \<lparr>auth_token = ''test-api-key'', model = ''test-model'', system_role = ''test-role'',
                   chat_history = [\<lparr>role = ''system'', content = PStr ''test-role''\<rparr>],
                   private_config = []\<rparr>"

text \<open>The same client after \<open>set_config(temperature=0.8)\<close>.\<close>

definition warm_client :: client where
  "warm_client = test_client\<lparr>private_config :=
     [(''temperature'', PFloat (Finite (3602879701896397 / 4503599627370496)))]\<rparr>"

text \<open>A response with the given status and a JSON error body.\<close>

definition error_response :: "int \<Rightarrow> response" where
  "error_response code =
     \<lparr>status_code = code, reason = ''Error'', url = ''https://api.perplexity.ai/chat/completions'',
      body_text = ''{\"error\": \"test error\"}'',
      body_json = Some (PDict [(''error'', PStr ''test error'')])\<rparr>"

text \<open>The success response \<open>{"choices": [{"message": {"content": "X"}}]}\<close>.\<close>

definition answer_response :: response where
  "answer_response =
     \<lparr>status_code = 200, reason = ''OK'', url = ''https://api.perplexity.ai/chat/completions'',
      body_text = ''{\"choices\": [{\"message\": {\"content\": \"X\"}}]}'',
      body_json = Some (PDict [(''choices'',
                    PList [PDict [(''message'', PDict [(''content'', PStr ''X'')])]])])\<rparr>"

text \<open>Servers: one answers every request with a status, one with the success response.\<close>

definition send_status :: "int \<Rightarrow> transport" where
  "send_status code p = Returns (error_response code)"

definition send_answer :: transport where
  "send_answer p = Returns answer_response"

text \<open>A request that raises with a response attached, as the unit tests mock it.\<close>

definition send_raising :: "int \<Rightarrow> transport" where
  "send_raising code p = Raises \<lparr>exc_str = [], exc_response = Some (error_response code)\<rparr>"

text \<open>A request that times out: the exception has no response.\<close>

definition send_timeout :: transport where
  "send_timeout p = Raises \<lparr>exc_str = [Lit ''Read timed out.''], exc_response = None\<rparr>"


text \<open>
  Two more success responses: one whose assistant content is the empty string, and one
  with an empty list of choices, on which the first subscript raises \<open>IndexError\<close>.
\<close>

definition empty_answer_response :: response where
  "empty_answer_response =
     \<lparr>status_code = 200, reason = ''OK'', url = ''https://api.perplexity.ai/chat/completions'',
      body_text = ''{\"choices\": [{\"message\": {\"content\": \"\"}}]}'',
      body_json = Some (PDict [(''choices'',
                    PList [PDict [(''message'', PDict [(''content'', PStr [])])]])])\<rparr>"

definition no_choices_response :: response where
  "no_choices_response =
     \<lparr>status_code = 200, reason = ''OK'', url = ''https://api.perplexity.ai/chat/completions'',
      body_text = ''{\"choices\": []}'',
      body_json = Some (PDict [(''choices'', PList [])])\<rparr>"

definition send_empty_answer :: transport where
  "send_empty_answer p = Returns empty_answer_response"

definition send_no_choices :: transport where
  "send_no_choices p = Returns no_choices_response"

section \<open>Helper lemmas\<close>

lemma validate_items_shape:
  "validate_items kvs = Inr () \<or> (\<exists>m. validate_items kvs = Inl (PerplexityConfigError m None))"
  by (induction kvs) (auto split: option.splits)

lemma validate_items_unknown_key:
  "(k, v) \<in> set kvs \<Longrightarrow> map_of default_config k = None
     \<Longrightarrow> \<exists>m. validate_items kvs = Inl (PerplexityConfigError m None)"
  by (induction kvs) (auto split: option.splits)

lemma validate_items_type_mismatch:
  "(k, v) \<in> set kvs \<Longrightarrow> map_of default_config k = Some d \<Longrightarrow> d \<noteq> PNone
     \<Longrightarrow> \<not> isinstance_py v (type_py d)
     \<Longrightarrow> \<exists>m. validate_items kvs = Inl (PerplexityConfigError m None)"
  by (induction kvs) (auto split: option.splits)

lemma set_config_error:
  "validate_config (PDict kvs) = Inl e \<Longrightarrow> set_config self kvs = (Inl e, self)"
  by (simp add: set_config_def validate_and_set_config_def)

lemma dict_set_subset: "set (dict_set d k v) \<subseteq> insert (k, v) (set d)"
  by (induction d) auto

lemma dict_merge_subset: "set (dict_merge a b) \<subseteq> set a \<union> set b"
  unfolding dict_merge_def
proof (induction b arbitrary: a)
  case Nil
  then show ?case by simp
next
  case (Cons kv b)
  have "set (fold (\<lambda>kv d. dict_set d (fst kv) (snd kv)) b (dict_set a (fst kv) (snd kv)))
          \<subseteq> set (dict_set a (fst kv) (snd kv)) \<union> set b"
    by (rule Cons.IH)
  also have "\<dots> \<subseteq> insert (fst kv, snd kv) (set a) \<union> set b"
    using dict_set_subset [of a "fst kv" "snd kv"] by blast
  finally show ?case by auto
qed

lemma default_max_tokens: "(''max_tokens'', v) \<in> set default_config \<Longrightarrow> v = PNone"
  by (simp add: default_config_def)

lemma default_self_equal: "map_of default_config k = Some d \<Longrightarrow> py_eq d d"
  by (auto simp: default_config_def split: if_splits)

lemma default_self_instance: "map_of default_config k = Some d \<Longrightarrow> isinstance_py d (type_py d)"
  by (simp add: isinstance_py_def)

lemmas eval_defs = ask_def ask_payload_def chat_def chat_checks_def chat_payload_def chat_appended_def
  validate_required_params_def get_validated_config_def member_values_def
  test_client_def send_status_def send_answer_def send_raising_def send_timeout_def
  error_response_def answer_response_def ok_def raise_for_status_def raise_error_message_def
  format_response_def content_path_def user_turn_def assistant_turn_def Let_def

lemma not_ok_raises: "\<not> ok rs \<Longrightarrow> \<exists>e. raise_for_status rs = Some e \<and> exc_response e = Some rs"
  by (auto simp: ok_def raise_for_status_def split: if_splits)

lemma ask_failed:
  "ask_payload self message m r rt kw = Inr p \<Longrightarrow>
   send p = Raises e \<or> (\<exists>rs. send p = Returns rs \<and> \<not> ok rs \<and> raise_for_status rs = Some e) \<Longrightarrow>
   ask self send message m r ah rt kw = (Inl (raise_error_message e), self)"
  by (auto simp: ask_def)

lemma chat_failed:
  "chat_checks self rt = Inr () \<Longrightarrow>
   send (chat_payload (chat_appended self message)) = Raises e
     \<or> (\<exists>rs. send (chat_payload (chat_appended self message)) = Returns rs \<and> \<not> ok rs
           \<and> raise_for_status rs = Some e) \<Longrightarrow>
   chat self send message rt = (Inl (raise_error_message e), chat_appended self message)"
  by (auto simp: chat_def Let_def)

lemma chat_answered:
  "chat_checks self rt = Inr () \<Longrightarrow>
   send (chat_payload (chat_appended self message)) = Returns rs \<Longrightarrow> ok rs \<Longrightarrow>
   body_json rs = Some j \<Longrightarrow> content_path j = Inr c \<Longrightarrow> truthy c \<Longrightarrow>
   snd (chat self send message rt)
     = self\<lparr>chat_history := chat_history self @ [user_turn message, assistant_turn c]\<rparr>
   \<and> (rt = AsValue (PStr ''llm_response'') \<longrightarrow> fst (chat self send message rt) = Inr (ValueView c))"
  by (auto simp: chat_def Let_def format_response_def chat_appended_def split: sum.splits)

lemma map_of_dict_set: "map_of (dict_set d k' v) k = (if k = k' then Some v else map_of d k)"
  by (induction d) auto

lemma keys_dict_set: "fst ` set (dict_set d k v) = insert k (fst ` set d)"
  by (induction d) auto

lemma store_items_keeps_binding:
  "(\<And>v. (k, v) \<in> set kvs \<Longrightarrow> \<not> py_ne v (default_get k))
     \<Longrightarrow> map_of (store_items d kvs) k = map_of d k"
  unfolding store_items_def
proof (induction kvs arbitrary: d)
  case Nil
  then show ?case by simp
next
  case (Cons kv kvs)
  have rest: "\<And>v. (k, v) \<in> set kvs \<Longrightarrow> \<not> py_ne v (default_get k)"
    using Cons.prems by simp
  have head: "fst kv = k \<Longrightarrow> \<not> py_ne (snd kv) (default_get k)"
    using Cons.prems [of "snd kv"] by (cases kv) simp
  show ?case
  proof (cases "fst kv = k")
    case True
    with head have "\<not> py_ne (snd kv) (default_get (fst kv))" by simp
    then show ?thesis using Cons.IH [OF rest, of d] by simp
  next
    case False
    then show ?thesis
      using Cons.IH [OF rest, of d] Cons.IH [OF rest, of "dict_set d (fst kv) (snd kv)"]
      by (simp add: map_of_dict_set)
  qed
qed

lemma store_items_keeps_keys: "fst ` set d \<subseteq> fst ` set (store_items d kvs)"
  unfolding store_items_def
proof (induction kvs arbitrary: d)
  case Nil
  then show ?case by simp
next
  case (Cons kv kvs)
  show ?case
    using Cons.IH [of "dict_set d (fst kv) (snd kv)"] Cons.IH [of d]
    by (auto simp: keys_dict_set)
qed

lemma set_config_private:
  "private_config (snd (set_config self kw)) = private_config self
   \<or> private_config (snd (set_config self kw)) = store_items (private_config self) kw"
  by (simp add: set_config_def validate_and_set_config_def split: sum.splits)

lemma ask_private: "private_config (snd (ask self send message m r ah rt kw)) = private_config self"
  by (simp add: ask_def Let_def split: sum.splits outcome.splits option.splits)

lemma chat_private: "private_config (snd (chat self send message rt)) = private_config self"
  by (simp add: chat_def Let_def chat_appended_def split: sum.splits outcome.splits option.splits)

lemma chat_checks_fail: "chat_checks self rt = Inl e \<Longrightarrow> chat self send message rt = (Inl e, self)"
  by (simp add: chat_def)

lemma chat_history_after:
  "chat_checks self rt = Inr () \<Longrightarrow>
   chat_history (snd (chat self send message rt))
     = chat_history self @ [user_turn message] @
       (case send (chat_payload (chat_appended self message)) of
          Raises e \<Rightarrow> []
        | Returns rs \<Rightarrow>
            if ok rs then
              (case format_response rs of
                 Inl err \<Rightarrow> []
               | Inr f \<Rightarrow> if truthy (llm_response f) then [assistant_turn (llm_response f)] else [])
            else [])"
  by (simp add: chat_def Let_def chat_appended_def split: sum.splits outcome.splits option.splits)

lemma chat_frame:
  "auth_token (snd (chat self send message rt)) = auth_token self
   \<and> model (snd (chat self send message rt)) = model self
   \<and> system_role (snd (chat self send message rt)) = system_role self"
  by (simp add: chat_def Let_def chat_appended_def split: sum.splits outcome.splits option.splits)

lemma chat_format_error:
  "chat_checks self rt = Inr () \<Longrightarrow>
   send (chat_payload (chat_appended self message)) = Returns rs \<Longrightarrow> ok rs \<Longrightarrow>
   format_response rs = Inl err \<Longrightarrow>
   chat self send message rt = (Inl err, self\<lparr>chat_history := chat_history self @ [user_turn message]\<rparr>)"
  by (auto simp: chat_def Let_def chat_appended_def split: sum.splits)

lemma chat_empty_answer:
  "chat_checks self rt = Inr () \<Longrightarrow>
   send (chat_payload (chat_appended self message)) = Returns rs \<Longrightarrow> ok rs \<Longrightarrow>
   format_response rs = Inr f \<Longrightarrow> \<not> truthy (llm_response f) \<Longrightarrow>
   snd (chat self send message rt) = self\<lparr>chat_history := chat_history self @ [user_turn message]\<rparr>
   \<and> (rt = AsValue (PStr ''llm_response'')
        \<longrightarrow> fst (chat self send message rt) = Inr (ValueView (llm_response f)))"
  by (auto simp: chat_def Let_def chat_appended_def split: sum.splits)

lemma chat_suffix:
  "chat_checks self rt = Inr () \<Longrightarrow>
   \<exists>suf. chat_history (snd (chat self send message rt)) = chat_history self @ [user_turn message] @ suf
      \<and> length suf \<le> 1"
  using chat_history_after [of self rt send message]
  by (auto split: outcome.splits sum.splits if_splits)

section \<open>Setting a key to its default\<close>

text \<open>
  C1, as stated, fails: \<open>set_config\<close> never deletes an entry of the stored overrides.
  On the client that holds the override \<open>temperature = 0.8\<close>, the call
  \<open>set_config(temperature=0.2)\<close> with the default value succeeds, the override is still
  stored, and the \<open>config\<close> property still reports 0.8 for the key, not the default.
\<close>

theorem set_default_keeps_override:
  "default_get ''temperature'' = PFloat (Finite (3602879701896397 / 18014398509481984))
   \<and> map_of (private_config warm_client) ''temperature''
       = Some (PFloat (Finite (3602879701896397 / 4503599627370496)))
   \<and> set_config warm_client [(''temperature'', default_get ''temperature'')] = (Inr (), warm_client)
   \<and> map_of (config (snd (set_config warm_client [(''temperature'', default_get ''temperature'')])))
         ''temperature''
       = Some (PFloat (Finite (3602879701896397 / 4503599627370496)))"
  by (simp add: warm_client_def test_client_def set_config_def validate_and_set_config_def
      store_items_def default_get_def default_config_def isinstance_py_def py_ne_def config_def
      dict_merge_def)

text \<open>
  C1, amended: for every client and every key of the default mapping, calling
  \<open>set_config\<close> with that key set to its default value succeeds and writes nothing: the
  stored overrides, and with them the result of the \<open>config\<close> property, are what they were
  before the call, so an existing override for the key stays in force.  No other call
  removes an override either: any \<open>set_config\<close> call leaves the stored value of a key
  to which it gives no value unequal to the key's default, and keeps every stored key;
  \<open>ask\<close> and \<open>chat\<close> leave the stored overrides as they are; \<open>reset_config\<close> alone
  empties them.
\<close>

theorem set_config_keeps_overrides:
  "(map_of default_config k = Some d \<longrightarrow>
      set_config self [(k, d)] = (Inr (), self)
      \<and> private_config (snd (set_config self [(k, d)])) = private_config self
      \<and> config (snd (set_config self [(k, d)])) = config self)
   \<and> ((\<forall>v. (k2, v) \<in> set kw2 \<longrightarrow> py_eq v (default_get k2)) \<longrightarrow>
        map_of (private_config (snd (set_config self2 kw2))) k2 = map_of (private_config self2) k2)
   \<and> fst ` set (private_config self3) \<subseteq> fst ` set (private_config (snd (set_config self3 kw3)))
   \<and> private_config (snd (ask self4 send4 message4 m4 r4 ah4 rt4 kw4)) = private_config self4
   \<and> private_config (snd (chat self5 send5 message5 rt5)) = private_config self5
   \<and> private_config (reset_config self6) = []"
proof (intro conjI impI)
  assume a: "map_of default_config k = Some d"
  have n: "set_config self [(k, d)] = (Inr (), self)"
    using a default_self_equal [OF a] default_self_instance [OF a]
    by (simp add: set_config_def validate_and_set_config_def store_items_def default_get_def
        py_ne_def)
  then show "set_config self [(k, d)] = (Inr (), self)" .
  from n show "private_config (snd (set_config self [(k, d)])) = private_config self" by simp
  from n show "config (snd (set_config self [(k, d)])) = config self" by simp
next
  assume a: "\<forall>v. (k2, v) \<in> set kw2 \<longrightarrow> py_eq v (default_get k2)"
  then have "map_of (store_items (private_config self2) kw2) k2 = map_of (private_config self2) k2"
    using store_items_keeps_binding [of k2 kw2 "private_config self2"] by (simp add: py_ne_def)
  then show "map_of (private_config (snd (set_config self2 kw2))) k2 = map_of (private_config self2) k2"
    using set_config_private [of self2 kw2] by auto
next
  show "fst ` set (private_config self3) \<subseteq> fst ` set (private_config (snd (set_config self3 kw3)))"
  proof (rule disjE [OF set_config_private [of self3 kw3]])
    assume "private_config (snd (set_config self3 kw3)) = private_config self3"
    then show ?thesis by simp
  next
    assume "private_config (snd (set_config self3 kw3)) = store_items (private_config self3) kw3"
    then show ?thesis
      using store_items_keeps_keys [of "private_config self3" kw3] by simp
  qed
next
  show "private_config (snd (ask self4 send4 message4 m4 r4 ah4 rt4 kw4)) = private_config self4"
    by (rule ask_private)
next
  show "private_config (snd (chat self5 send5 message5 rt5)) = private_config self5"
    by (rule chat_private)
next
  show "private_config (reset_config self6) = []"
    by (simp add: reset_config_def)
qed

theorem set_config_keeps_overrides_witness:
  "set_config warm_client
      [(''temperature'', PFloat (Finite (3602879701896397 / 18014398509481984)))]
     = (Inr (), warm_client)
   \<and> private_config (snd (set_config warm_client
        [(''temperature'', PFloat (Finite (3602879701896397 / 18014398509481984)))]))
     = private_config warm_client
   \<and> config (snd (set_config warm_client
        [(''temperature'', PFloat (Finite (3602879701896397 / 18014398509481984)))]))
     = config warm_client
   \<and> map_of (private_config (snd (set_config warm_client
        [(''top_p'', PFloat (Finite (1 / 2))),
         (''temperature'', PFloat (Finite (3602879701896397 / 18014398509481984)))])))
        ''temperature''
     = Some (PFloat (Finite (3602879701896397 / 4503599627370496)))
   \<and> private_config (snd (set_config warm_client
        [(''top_p'', PFloat (Finite (1 / 2))),
         (''temperature'', PFloat (Finite (3602879701896397 / 18014398509481984)))]))
     = [(''temperature'', PFloat (Finite (3602879701896397 / 4503599627370496))),
        (''top_p'', PFloat (Finite (1 / 2)))]"
proof -
  note t = set_config_keeps_overrides
    [of "''temperature''" "PFloat (Finite (3602879701896397 / 18014398509481984))" warm_client
        "''temperature''"
        "[(''top_p'', PFloat (Finite (1 / 2))),
          (''temperature'', PFloat (Finite (3602879701896397 / 18014398509481984)))]"
        warm_client]
  have d: "map_of default_config ''temperature''
      = Some (PFloat (Finite (3602879701896397 / 18014398509481984)))"
    by (simp add: default_config_def)
  have 1: "set_config warm_client
      [(''temperature'', PFloat (Finite (3602879701896397 / 18014398509481984)))]
     = (Inr (), warm_client)"
    using t d by simp
  have "map_of (private_config (snd (set_config warm_client
        [(''top_p'', PFloat (Finite (1 / 2))),
         (''temperature'', PFloat (Finite (3602879701896397 / 18014398509481984)))])))
        ''temperature''
     = map_of (private_config warm_client) ''temperature''"
    using t by (simp add: default_get_def default_config_def)
  then have 2: "map_of (private_config (snd (set_config warm_client
        [(''top_p'', PFloat (Finite (1 / 2))),
         (''temperature'', PFloat (Finite (3602879701896397 / 18014398509481984)))])))
        ''temperature''
     = Some (PFloat (Finite (3602879701896397 / 4503599627370496)))"
    by (simp add: warm_client_def)
  have 3: "private_config (snd (set_config warm_client
        [(''top_p'', PFloat (Finite (1 / 2))),
         (''temperature'', PFloat (Finite (3602879701896397 / 18014398509481984)))]))
     = [(''temperature'', PFloat (Finite (3602879701896397 / 4503599627370496))),
        (''top_p'', PFloat (Finite (1 / 2)))]"
    by (simp add: warm_client_def test_client_def set_config_def validate_and_set_config_def
      store_items_def default_get_def default_config_def isinstance_py_def py_ne_def)
  from 1 2 3 show ?thesis by simp
qed

section \<open>Validation of a configuration\<close>

text \<open>
  C5, as stated, fails: a value whose type is not the type of its default can pass.
  The default of \<open>top_k\<close> is the integer 0 and \<open>True\<close> is of type \<open>bool\<close>, yet
  \<open>validate_config({"top_k": True})\<close> raises nothing and \<open>set_config(top_k=True)\<close>
  stores the value.
\<close>

theorem type_mismatch_accepted:
  "map_of default_config ''top_k'' = Some (PInt 0)
   \<and> type_py (PBool True) \<noteq> type_py (PInt 0)
   \<and> validate_config (PDict [(''top_k'', PBool True)]) = Inr ()
   \<and> set_config test_client [(''top_k'', PBool True)]
       = (Inr (), test_client\<lparr>private_config := [(''top_k'', PBool True)]\<rparr>)"
  by (simp add: default_config_def isinstance_py_def set_config_def validate_and_set_config_def
      store_items_def default_get_def py_ne_def test_client_def)

text \<open>
  C5, amended: a configuration dictionary with a key that is not in the default mapping
  makes \<open>validate_config\<close> raise \<open>PerplexityConfigError\<close>, and \<open>set_config\<close> raise the
  same error and leave the client as it was; so does an entry whose value has another
  type than its default, when that default is not \<open>None\<close>, a boolean value for an
  integer default apart.  The only key whose default is \<open>None\<close> is \<open>max_tokens\<close>, and
  it is accepted with a value of any type.
\<close>

theorem config_violation_raises:
  "((k1, v1) \<in> set kvs1 \<and> map_of default_config k1 = None \<longrightarrow>
      (\<exists>m. validate_config (PDict kvs1) = Inl (PerplexityConfigError m None)
          \<and> set_config self1 kvs1 = (Inl (PerplexityConfigError m None), self1)))
   \<and> ((k2, v2) \<in> set kvs2 \<and> map_of default_config k2 = Some d \<and> d \<noteq> PNone
        \<and> type_py v2 \<noteq> type_py d \<and> \<not> (type_py v2 = TBool \<and> type_py d = TInt) \<longrightarrow>
      (\<exists>m. validate_config (PDict kvs2) = Inl (PerplexityConfigError m None)
          \<and> set_config self2 kvs2 = (Inl (PerplexityConfigError m None), self2)))
   \<and> (map_of default_config k3 = Some PNone \<longrightarrow>
        k3 = ''max_tokens'' \<and> validate_config (PDict [(k3, v3)]) = Inr ()
        \<and> fst (set_config self3 [(k3, v3)]) = Inr ())"
proof (intro conjI impI)
  assume a: "(k1, v1) \<in> set kvs1 \<and> map_of default_config k1 = None"
  then obtain m where "validate_items kvs1 = Inl (PerplexityConfigError m None)"
    using validate_items_unknown_key by blast
  then show "\<exists>m. validate_config (PDict kvs1) = Inl (PerplexityConfigError m None)
          \<and> set_config self1 kvs1 = (Inl (PerplexityConfigError m None), self1)"
    using set_config_error [of kvs1 _ self1] by auto
next
  assume a: "(k2, v2) \<in> set kvs2 \<and> map_of default_config k2 = Some d \<and> d \<noteq> PNone
        \<and> type_py v2 \<noteq> type_py d \<and> \<not> (type_py v2 = TBool \<and> type_py d = TInt)"
  then have "\<not> isinstance_py v2 (type_py d)"
    by (simp add: isinstance_py_def)
  with a obtain m where "validate_items kvs2 = Inl (PerplexityConfigError m None)"
    using validate_items_type_mismatch by blast
  then show "\<exists>m. validate_config (PDict kvs2) = Inl (PerplexityConfigError m None)
          \<and> set_config self2 kvs2 = (Inl (PerplexityConfigError m None), self2)"
    using set_config_error [of kvs2 _ self2] by auto
next
  assume a: "map_of default_config k3 = Some PNone"
  then show "k3 = ''max_tokens''"
    by (auto simp: default_config_def split: if_splits)
  from a show "validate_config (PDict [(k3, v3)]) = Inr ()" by simp
  from a show "fst (set_config self3 [(k3, v3)]) = Inr ()"
    by (simp add: set_config_def validate_and_set_config_def)
qed

theorem config_violation_raises_witness:
  "(\<exists>m. validate_config (PDict [(''temperature'', PFloat (Finite (1 / 2))), (''invalid_key'', PStr ''value'')])
           = Inl (PerplexityConfigError m None)
       \<and> set_config test_client [(''temperature'', PFloat (Finite (1 / 2))), (''invalid_key'', PStr ''value'')]
           = (Inl (PerplexityConfigError m None), test_client))
   \<and> (\<exists>m. validate_config (PDict [(''temperature'', PInt 1)]) = Inl (PerplexityConfigError m None)
       \<and> set_config test_client [(''temperature'', PInt 1)]
           = (Inl (PerplexityConfigError m None), test_client))
   \<and> validate_config (PDict [(''max_tokens'', PStr ''many'')]) = Inr ()
   \<and> fst (set_config test_client [(''max_tokens'', PStr ''many'')]) = Inr ()"
  using config_violation_raises
    [of "''invalid_key''" "PStr ''value''"
        "[(''temperature'', PFloat (Finite (1 / 2))), (''invalid_key'', PStr ''value'')]" test_client
        "''temperature''" "PInt 1" "[(''temperature'', PInt 1)]"
        "PFloat (Finite (3602879701896397 / 18014398509481984))" test_client
        "''max_tokens''" "PStr ''many''" test_client]
  by (simp add: default_config_def isinstance_py_def)

text \<open>
  C9: \<open>is_config_valid\<close> returns a boolean for a dictionary; for every argument that is
  not a dictionary the \<open>TypeError\<close> of \<open>validate_config\<close> leaves it, since only
  \<open>PerplexityConfigError\<close> is caught.
\<close>

theorem is_config_valid_non_dict:
  "(type_py c \<noteq> TDict \<longrightarrow>
      validate_config c = Inl (TypeError [Lit ''The configuration must be a dictionary''])
      \<and> is_config_valid c = Inl (TypeError [Lit ''The configuration must be a dictionary'']))
   \<and> is_config_valid (PDict kvs) = Inr (validate_items kvs = Inr ())"
proof (intro conjI impI)
  assume "type_py c \<noteq> TDict"
  then show "validate_config c = Inl (TypeError [Lit ''The configuration must be a dictionary''])"
    by (cases c) simp_all
  then show "is_config_valid c = Inl (TypeError [Lit ''The configuration must be a dictionary''])"
    by (simp add: is_config_valid_def)
next
  show "is_config_valid (PDict kvs) = Inr (validate_items kvs = Inr ())"
    using validate_items_shape [of kvs] by (auto simp: is_config_valid_def)
qed

theorem is_config_valid_non_dict_witness:
  "validate_config (PList [PStr ''temperature''])
     = Inl (TypeError [Lit ''The configuration must be a dictionary''])
   \<and> is_config_valid (PList [PStr ''temperature''])
     = Inl (TypeError [Lit ''The configuration must be a dictionary''])
   \<and> is_config_valid (PDict [(''invalid_key'', PStr ''value'')]) = Inr False"
  using is_config_valid_non_dict
    [of "PList [PStr ''temperature'']" "[(''invalid_key'', PStr ''value'')]"]
  by (simp add: default_config_def)

text \<open>
  C10: for every key whose default value is an integer, \<open>validate_config\<close> accepts a
  boolean value and \<open>is_config_valid\<close> returns \<open>True\<close>, because \<open>isinstance\<close> takes a
  boolean for an integer; these keys are \<open>top_k\<close>, \<open>presence_penalty\<close> and
  \<open>frequency_penalty\<close>.
\<close>

theorem bool_for_int_default:
  "(map_of default_config k = Some d \<and> type_py d = TInt \<longrightarrow>
      validate_config (PDict [(k, PBool b)]) = Inr ()
      \<and> is_config_valid (PDict [(k, PBool b)]) = Inr True)
   \<and> {k'. \<exists>d'. map_of default_config k' = Some d' \<and> type_py d' = TInt}
       = {''top_k'', ''presence_penalty'', ''frequency_penalty''}"
proof (intro conjI impI)
  assume "map_of default_config k = Some d \<and> type_py d = TInt"
  then show "validate_config (PDict [(k, PBool b)]) = Inr ()"
    by (auto simp: isinstance_py_def)
  then show "is_config_valid (PDict [(k, PBool b)]) = Inr True"
    by (simp add: is_config_valid_def)
next
  show "{k'. \<exists>d'. map_of default_config k' = Some d' \<and> type_py d' = TInt}
       = {''top_k'', ''presence_penalty'', ''frequency_penalty''}"
    by (auto simp: default_config_def split: if_splits)
qed

theorem bool_for_int_default_witness:
  "validate_config (PDict [(''top_k'', PBool True)]) = Inr ()
   \<and> is_config_valid (PDict [(''top_k'', PBool True)]) = Inr True"
  using bool_for_int_default [of "''top_k''" "PInt 0" True]
  by (simp add: default_config_def)

section \<open>The effective configuration\<close>

text \<open>
  C6: no entry of the mapping the \<open>config\<close> property returns has the value \<open>None\<close>; and
  when no stored override gives \<open>max_tokens\<close> a value other than \<open>None\<close>, the key
  \<open>max_tokens\<close> is not in the result.
\<close>

theorem config_has_no_none:
  "(\<forall>kv \<in> set (config self). snd kv \<noteq> PNone)
   \<and> ((\<forall>v. (''max_tokens'', v) \<in> set (private_config self) \<longrightarrow> v = PNone)
        \<longrightarrow> ''max_tokens'' \<notin> fst ` set (config self))"
proof (intro conjI impI)
  show "\<forall>kv \<in> set (config self). snd kv \<noteq> PNone"
    by (simp add: config_def)
next
  assume a: "\<forall>v. (''max_tokens'', v) \<in> set (private_config self) \<longrightarrow> v = PNone"
  show "''max_tokens'' \<notin> fst ` set (config self)"
  proof
    assume "''max_tokens'' \<in> fst ` set (config self)"
    then obtain v where v: "(''max_tokens'', v) \<in> set (config self)" by force
    then have "v \<noteq> PNone"
      and "(''max_tokens'', v) \<in> set (dict_merge default_config (private_config self))"
      by (auto simp: config_def)
    then have "(''max_tokens'', v) \<in> set default_config
        \<or> (''max_tokens'', v) \<in> set (private_config self)"
      using dict_merge_subset [of default_config "private_config self"] by blast
    with a default_max_tokens have "v = PNone" by blast
    with \<open>v \<noteq> PNone\<close> show False by simp
  qed
qed

theorem config_has_no_none_witness:
  "PNone \<notin> snd ` set (config test_client) \<and> ''max_tokens'' \<notin> fst ` set (config test_client)
   \<and> map_of (config (test_client\<lparr>private_config := [(''max_tokens'', PInt 100)]\<rparr>)) ''max_tokens''
       = Some (PInt 100)"
proof -
  have "private_config test_client = []" by (simp add: test_client_def)
  then have "''max_tokens'' \<notin> fst ` set (config test_client)"
    using config_has_no_none [of test_client] by simp
  moreover have "PNone \<notin> snd ` set (config test_client)"
    using config_has_no_none [of test_client] by force
  moreover have "map_of (config (test_client\<lparr>private_config := [(''max_tokens'', PInt 100)]\<rparr>))
      ''max_tokens'' = Some (PInt 100)"
    by (simp add: config_def dict_merge_def default_config_def)
  ultimately show ?thesis by simp
qed

text \<open>
  C8: after any sequence of \<open>set_config\<close> calls, \<open>reset_config\<close> makes the \<open>config\<close>
  property return the default mapping without its \<open>None\<close> entry, that is the ten
  defaults other than \<open>max_tokens\<close>; and \<open>reset_config\<close> leaves the API key, the model,
  the system role and the chat history of any client as they were.
\<close>

theorem reset_config_restores_defaults:
  "config (reset_config (set_config_calls self calls)) =
     [(''temperature'', PFloat (Finite (3602879701896397 / 18014398509481984))),
      (''top_p'', PFloat (Finite (8106479329266893 / 9007199254740992))),
      (''search_domain_filter'', PList []),
      (''return_images'', PBool False),
      (''return_related_questions'', PBool False),
      (''search_recency_filter'', PStr ''month''),
      (''top_k'', PInt 0),
      (''stream'', PBool False),
      (''presence_penalty'', PInt 0),
      (''frequency_penalty'', PInt 1)]
   \<and> config (reset_config (set_config_calls self calls))
       = filter (\<lambda>kv. snd kv \<noteq> PNone) default_config
   \<and> auth_token (reset_config s) = auth_token s
   \<and> model (reset_config s) = model s
   \<and> system_role (reset_config s) = system_role s
   \<and> chat_history (reset_config s) = chat_history s"
  by (simp add: config_def reset_config_def dict_merge_def default_config_def)


section \<open>The constructor\<close>

text \<open>
  C4, as stated, fails: with three non-empty arguments the constructor still raises when
  its optional \<open>config\<close> argument does not pass \<open>validate_config\<close>.  The call
  \<open>Perplexity("test-api-key", "test-model", "test-role", {"invalid_key": "value"})\<close>
  raises \<open>PerplexityConfigError\<close> and yields no client.
\<close>

theorem init_invalid_config_raises:
  "init ''test-api-key'' ''test-model'' ''test-role'' (PDict [(''invalid_key'', PStr ''value'')])
     = Inl (PerplexityConfigError [Lit ''Invalid configuration key: '', Lit ''invalid_key''] None)"
  by (simp add: init_def validate_required_params_def validate_and_set_config_def default_config_def)

text \<open>
  C4, amended: an empty \<open>api_key\<close> raises \<open>PerplexityAuthError\<close>; a non-empty
  \<open>api_key\<close> with an empty \<open>model\<close> or an empty \<open>system_role\<close> raises
  \<open>PerplexityConfigError\<close>; three non-empty arguments with no \<open>config\<close>, or with a
  \<open>config\<close> that \<open>validate_config\<close> accepts, succeed and leave a chat history of length
  exactly 1, the system turn with the given \<open>system_role\<close>; and three non-empty
  arguments with a \<open>config\<close> that \<open>validate_config\<close> rejects raise that error.
\<close>

theorem init_outcomes:
  "(init [] m1 r1 c1 = Inl (PerplexityAuthError [Lit ''API key is required''] None))
   \<and> (k2 \<noteq> [] \<and> (m2 = [] \<or> r2 = []) \<longrightarrow>
        (\<exists>msg. init k2 m2 r2 c2 = Inl (PerplexityConfigError msg None)))
   \<and> (k3 \<noteq> [] \<and> m3 \<noteq> [] \<and> r3 \<noteq> [] \<and> (c3 = PNone \<or> validate_config c3 = Inr ()) \<longrightarrow>
        (\<exists>s. init k3 m3 r3 c3 = Inr s
           \<and> chat_history s = [\<lparr>role = ''system'', content = PStr r3\<rparr>]
           \<and> length (chat_history s) = 1
           \<and> auth_token s = k3 \<and> model s = m3 \<and> system_role s = r3))
   \<and> (k4 \<noteq> [] \<and> m4 \<noteq> [] \<and> r4 \<noteq> [] \<and> c4 \<noteq> PNone \<and> validate_config c4 = Inl e4 \<longrightarrow>
        init k4 m4 r4 c4 = Inl e4)"
proof (intro conjI impI)
  show "init [] m1 r1 c1 = Inl (PerplexityAuthError [Lit ''API key is required''] None)"
    by (simp add: init_def validate_required_params_def)
next
  assume "k2 \<noteq> [] \<and> (m2 = [] \<or> r2 = [])"
  then show "\<exists>msg. init k2 m2 r2 c2 = Inl (PerplexityConfigError msg None)"
    by (auto simp: init_def validate_required_params_def Let_def)
next
  assume a: "k3 \<noteq> [] \<and> m3 \<noteq> [] \<and> r3 \<noteq> [] \<and> (c3 = PNone \<or> validate_config c3 = Inr ())"
  show "\<exists>s. init k3 m3 r3 c3 = Inr s
           \<and> chat_history s = [\<lparr>role = ''system'', content = PStr r3\<rparr>]
           \<and> length (chat_history s) = 1
           \<and> auth_token s = k3 \<and> model s = m3 \<and> system_role s = r3"
  proof (cases "c3 = PNone")
    case True
    with a show ?thesis by (simp add: init_def validate_required_params_def)
  next
    case False
    with a have v: "validate_config c3 = Inr ()" by simp
    then obtain kvs where "c3 = PDict kvs" by (cases c3) simp_all
    with a v show ?thesis
      by (simp add: init_def validate_required_params_def validate_and_set_config_def)
  qed
next
  assume "k4 \<noteq> [] \<and> m4 \<noteq> [] \<and> r4 \<noteq> [] \<and> c4 \<noteq> PNone \<and> validate_config c4 = Inl e4"
  then show "init k4 m4 r4 c4 = Inl e4"
    by (simp add: init_def validate_required_params_def validate_and_set_config_def)
qed

theorem init_outcomes_witness:
  "(\<exists>msg. init ''test-api-key'' [] ''test-role'' PNone = Inl (PerplexityConfigError msg None))
   \<and> init ''test-api-key'' ''test-model'' ''test-role'' PNone = Inr test_client
   \<and> init ''test-api-key'' ''test-model'' ''test-role'' (PInt 5)
       = Inl (TypeError [Lit ''The configuration must be a dictionary''])"
proof -
  note t = init_outcomes [of "''m''" "''r''" PNone
      "''test-api-key''" "[]" "''test-role''" PNone
      "''test-api-key''" "''test-model''" "''test-role''" PNone
      "''test-api-key''" "''test-model''" "''test-role''" "PInt 5"
      "TypeError [Lit ''The configuration must be a dictionary'']"]
  have 1: "\<exists>msg. init ''test-api-key'' [] ''test-role'' PNone = Inl (PerplexityConfigError msg None)"
    using t by simp
  have "\<exists>s. init ''test-api-key'' ''test-model'' ''test-role'' PNone = Inr s
           \<and> chat_history s = [\<lparr>role = ''system'', content = PStr ''test-role''\<rparr>]
           \<and> length (chat_history s) = 1
           \<and> auth_token s = ''test-api-key'' \<and> model s = ''test-model'' \<and> system_role s = ''test-role''"
    using t by simp
  then have 2: "init ''test-api-key'' ''test-model'' ''test-role'' PNone = Inr test_client"
    by (simp add: init_def validate_required_params_def test_client_def)
  have 3: "init ''test-api-key'' ''test-model'' ''test-role'' (PInt 5)
       = Inl (TypeError [Lit ''The configuration must be a dictionary''])"
    using t by simp
  from 1 2 3 show ?thesis by blast
qed

section \<open>Failed requests\<close>

text \<open>
  C2: when \<open>ask\<close> or \<open>chat\<close> has passed its checks and the request fails, either
  because it raised or because it returned a response that is not \<open>ok\<close> (for which
  \<open>raise_for_status\<close> raises an exception carrying that response), the method raises
  what \<open>_raise_error_message\<close> makes of the exception: \<open>PerplexityConfigError\<close> for a
  response with status 400, \<open>PerplexityAuthError\<close> for status 401,
  \<open>PerplexityAPIError\<close> with \<open>status_code\<close> equal to the status for any other status,
  and \<open>PerplexityAPIError\<close> with \<open>status_code\<close> \<open>None\<close> for an exception without a
  response, as a timeout or a connection error is.
\<close>

theorem failed_request_classification:
  "(ask_payload self message m r rt kw = Inr p
      \<and> (send p = Raises e \<or> (\<exists>rs. send p = Returns rs \<and> \<not> ok rs \<and> raise_for_status rs = Some e))
     \<longrightarrow> fst (ask self send message m r ah rt kw) = Inl (raise_error_message e))
   \<and> (chat_checks cself crt = Inr ()
      \<and> (csend (chat_payload (chat_appended cself cmessage)) = Raises ce
          \<or> (\<exists>rs. csend (chat_payload (chat_appended cself cmessage)) = Returns rs \<and> \<not> ok rs
                \<and> raise_for_status rs = Some ce))
     \<longrightarrow> fst (chat cself csend cmessage crt) = Inl (raise_error_message ce))
   \<and> (\<not> ok rs0 \<longrightarrow> (\<exists>e0. raise_for_status rs0 = Some e0 \<and> exc_response e0 = Some rs0))
   \<and> (exc_response x = None \<longrightarrow> raise_error_message x = PerplexityAPIError (error_msg x) None)
   \<and> (exc_response y = Some ry \<and> status_code ry = 400
        \<longrightarrow> raise_error_message y = PerplexityConfigError (error_msg y) (Some 400))
   \<and> (exc_response z = Some rz \<and> status_code rz = 401
        \<longrightarrow> raise_error_message z = PerplexityAuthError (error_msg z) (Some 401))
   \<and> (exc_response w = Some rw \<and> status_code rw \<noteq> 400 \<and> status_code rw \<noteq> 401
        \<longrightarrow> raise_error_message w = PerplexityAPIError (error_msg w) (Some (status_code rw)))"
proof (intro conjI impI)
  assume "ask_payload self message m r rt kw = Inr p
      \<and> (send p = Raises e \<or> (\<exists>rs. send p = Returns rs \<and> \<not> ok rs \<and> raise_for_status rs = Some e))"
  then show "fst (ask self send message m r ah rt kw) = Inl (raise_error_message e)"
    using ask_failed [of self message m r rt kw p send e ah] by simp
next
  assume "chat_checks cself crt = Inr ()
      \<and> (csend (chat_payload (chat_appended cself cmessage)) = Raises ce
          \<or> (\<exists>rs. csend (chat_payload (chat_appended cself cmessage)) = Returns rs \<and> \<not> ok rs
                \<and> raise_for_status rs = Some ce))"
  then show "fst (chat cself csend cmessage crt) = Inl (raise_error_message ce)"
    using chat_failed [of cself crt csend cmessage ce] by simp
next
  assume "\<not> ok rs0"
  then show "\<exists>e0. raise_for_status rs0 = Some e0 \<and> exc_response e0 = Some rs0"
    by (rule not_ok_raises)
next
  assume "exc_response x = None"
  then show "raise_error_message x = PerplexityAPIError (error_msg x) None"
    by (simp add: raise_error_message_def)
next
  assume "exc_response y = Some ry \<and> status_code ry = 400"
  then show "raise_error_message y = PerplexityConfigError (error_msg y) (Some 400)"
    by (simp add: raise_error_message_def)
next
  assume "exc_response z = Some rz \<and> status_code rz = 401"
  then show "raise_error_message z = PerplexityAuthError (error_msg z) (Some 401)"
    by (simp add: raise_error_message_def)
next
  assume "exc_response w = Some rw \<and> status_code rw \<noteq> 400 \<and> status_code rw \<noteq> 401"
  then show "raise_error_message w = PerplexityAPIError (error_msg w) (Some (status_code rw))"
    by (simp add: raise_error_message_def)
qed

theorem failed_request_classification_witness:
  "(\<exists>m. fst (ask test_client (send_status 429) ''test'' None None False
              (AsValue (PStr ''llm_response'')) []) = Inl (PerplexityAPIError m (Some 429)))
   \<and> (\<exists>m. fst (chat test_client send_timeout ''test'' (AsValue (PStr ''llm_response'')))
          = Inl (PerplexityAPIError m None))
   \<and> (\<exists>m. raise_error_message \<lparr>exc_str = [], exc_response = Some (error_response 400)\<rparr>
          = PerplexityConfigError m (Some 400))
   \<and> (\<exists>m. raise_error_message \<lparr>exc_str = [], exc_response = Some (error_response 401)\<rparr>
          = PerplexityAuthError m (Some 401))
   \<and> (\<exists>m. raise_error_message \<lparr>exc_str = [], exc_response = Some (error_response 500)\<rparr>
          = PerplexityAPIError m (Some 500))
   \<and> (\<exists>e. raise_for_status (error_response 500) = Some e
          \<and> exc_response e = Some (error_response 500))"
proof -
  note t = failed_request_classification
    [where self = test_client and message = "''test''" and m = None and r = None
       and rt = "AsValue (PStr ''llm_response'')" and kw = "[]" and ah = False
       and p = "\<lparr>p_model = ''test-model'',
                  p_messages = [\<lparr>role = ''system'', content = PStr ''test-role''\<rparr>,
                                \<lparr>role = ''user'', content = PStr ''test''\<rparr>],
                  p_options = []\<rparr>"
       and send = "send_status 429"
       and e = "\<lparr>exc_str = [IntStr 429, Lit '' Client Error: '', Lit ''Error'', Lit '' for url: '',
                              Lit ''https://api.perplexity.ai/chat/completions''],
                  exc_response = Some (error_response 429)\<rparr>"
       and cself = test_client and crt = "AsValue (PStr ''llm_response'')"
       and csend = send_timeout and cmessage = "''test''"
       and ce = "\<lparr>exc_str = [Lit ''Read timed out.''], exc_response = None\<rparr>"
       and ?rs0.0 = "error_response 500"
       and x = "\<lparr>exc_str = [Lit ''Read timed out.''], exc_response = None\<rparr>"
       and y = "\<lparr>exc_str = [], exc_response = Some (error_response 400)\<rparr>"
       and ry = "error_response 400"
       and z = "\<lparr>exc_str = [], exc_response = Some (error_response 401)\<rparr>"
       and rz = "error_response 401"
       and w = "\<lparr>exc_str = [], exc_response = Some (error_response 500)\<rparr>"
       and rw = "error_response 500"]
  have p: "ask_payload test_client ''test'' None None (AsValue (PStr ''llm_response'')) []
      = Inr \<lparr>p_model = ''test-model'',
              p_messages = [\<lparr>role = ''system'', content = PStr ''test-role''\<rparr>,
                            \<lparr>role = ''user'', content = PStr ''test''\<rparr>],
              p_options = []\<rparr>"
    by (simp add: ask_payload_def validate_required_params_def get_validated_config_def
        member_values_def test_client_def user_turn_def)
  have c: "chat_checks test_client (AsValue (PStr ''llm_response'')) = Inr ()"
    by (simp add: chat_checks_def validate_required_params_def member_values_def test_client_def)
  have 1: "\<exists>m. fst (ask test_client (send_status 429) ''test'' None None False
              (AsValue (PStr ''llm_response'')) []) = Inl (PerplexityAPIError m (Some 429))"
    using t p by (simp add: send_status_def error_response_def ok_def raise_for_status_def
        raise_error_message_def)
  have 2: "\<exists>m. fst (chat test_client send_timeout ''test'' (AsValue (PStr ''llm_response'')))
          = Inl (PerplexityAPIError m None)"
    using t c by (simp add: send_timeout_def raise_error_message_def)
  have 3: "\<exists>m. raise_error_message \<lparr>exc_str = [], exc_response = Some (error_response 400)\<rparr>
          = PerplexityConfigError m (Some 400)"
    using t by (simp add: error_response_def)
  have 4: "\<exists>m. raise_error_message \<lparr>exc_str = [], exc_response = Some (error_response 401)\<rparr>
          = PerplexityAuthError m (Some 401)"
    using t by (simp add: error_response_def)
  have 5: "\<exists>m. raise_error_message \<lparr>exc_str = [], exc_response = Some (error_response 500)\<rparr>
          = PerplexityAPIError m (Some 500)"
    using t by (simp add: error_response_def)
  have 6: "\<exists>e. raise_for_status (error_response 500) = Some e
          \<and> exc_response e = Some (error_response 500)"
    using t by (simp add: error_response_def ok_def raise_for_status_def)
  from 1 2 3 4 5 6 show ?thesis by blast
qed

section \<open>The chat history\<close>

text \<open>
  C3, as stated, fails: a call to \<open>chat\<close> that does not pass its checks raises before
  the user turn is appended.  \<open>chat("hi", response_type="bogus")\<close> on the test client
  raises \<open>ValueError\<close> and leaves the chat history at its length of 1.
\<close>

theorem chat_invalid_type_appends_nothing:
  "chat test_client send_answer ''hi'' (AsValue (PStr ''bogus''))
     = (Inl (ValueError [Lit ''Invalid response_type: '', ValStr (PStr ''bogus''),
               Lit ''. Valid options are: '',
               ValStr (PList [PStr ''raw'', PStr ''text'', PStr ''json'', PStr ''llm_response''])]),
        test_client)
   \<and> length (chat_history test_client) = 1
   \<and> length (chat_history (snd (chat test_client send_answer ''hi'' (AsValue (PStr ''bogus''))))) = 1"
  by (simp add: eval_defs)

text \<open>
  C3, amended: a call to \<open>chat\<close> that fails its checks (an invalid \<open>response_type\<close>,
  an empty API key, model or system role) raises that error and leaves the client as it
  was.  Every call that passes them appends the user turn before it sends and never
  takes it back: afterwards the chat history is the old one, the new user turn, and at
  most one more turn, and nothing else of the client has changed.  When the request
  raises, or returns a response that is not \<open>ok\<close>, the call raises and the history ends
  with the new user turn; so it does when the response is \<open>ok\<close> and its content is
  empty or \<open>None\<close> (the call returns that content), or when formatting the response raises
  (the call raises that error).  When the response is \<open>ok\<close> and the content of the
  first choice's message is non-empty, the history is the old one followed by the user
  turn and an assistant turn with that content, two turns longer, and under the response
  type \<open>"llm_response"\<close> the call returns that content.
\<close>

theorem chat_appends_user_turn:
  "(chat_checks self rt = Inr () \<longrightarrow>
     (send1 (chat_payload (chat_appended self message)) = Raises e \<longrightarrow>
        chat self send1 message rt
          = (Inl (raise_error_message e),
             self\<lparr>chat_history := chat_history self @ [user_turn message]\<rparr>))
   \<and> (send2 (chat_payload (chat_appended self message)) = Returns rs2 \<and> \<not> ok rs2 \<longrightarrow>
        (\<exists>err. chat self send2 message rt
          = (Inl err, self\<lparr>chat_history := chat_history self @ [user_turn message]\<rparr>)))
   \<and> (send3 (chat_payload (chat_appended self message)) = Returns rs3 \<and> ok rs3
        \<and> body_json rs3 = Some j \<and> content_path j = Inr c \<and> truthy c \<longrightarrow>
        snd (chat self send3 message rt)
          = self\<lparr>chat_history := chat_history self @ [user_turn message, assistant_turn c]\<rparr>
        \<and> length (chat_history (snd (chat self send3 message rt))) = length (chat_history self) + 2
        \<and> (rt = AsValue (PStr ''llm_response'')
             \<longrightarrow> fst (chat self send3 message rt) = Inr (ValueView c)))
   \<and> (send4 (chat_payload (chat_appended self message)) = Returns rs4 \<and> ok rs4
        \<and> format_response rs4 = Inr f4 \<and> \<not> truthy (llm_response f4) \<longrightarrow>
        snd (chat self send4 message rt)
          = self\<lparr>chat_history := chat_history self @ [user_turn message]\<rparr>
        \<and> (rt = AsValue (PStr ''llm_response'')
             \<longrightarrow> fst (chat self send4 message rt) = Inr (ValueView (llm_response f4))))
   \<and> (send5 (chat_payload (chat_appended self message)) = Returns rs5 \<and> ok rs5
        \<and> format_response rs5 = Inl err5 \<longrightarrow>
        chat self send5 message rt
          = (Inl err5, self\<lparr>chat_history := chat_history self @ [user_turn message]\<rparr>))
   \<and> (\<exists>suf. chat_history (snd (chat self send6 message rt))
          = chat_history self @ [user_turn message] @ suf \<and> length suf \<le> 1)
   \<and> auth_token (snd (chat self send6 message rt)) = auth_token self
   \<and> model (snd (chat self send6 message rt)) = model self
   \<and> system_role (snd (chat self send6 message rt)) = system_role self
   \<and> private_config (snd (chat self send6 message rt)) = private_config self)
   \<and> (chat_checks self7 rt7 = Inl e7 \<longrightarrow> chat self7 send7 message7 rt7 = (Inl e7, self7))"
proof (intro conjI impI)
  assume c: "chat_checks self rt = Inr ()"
  assume "send1 (chat_payload (chat_appended self message)) = Raises e"
  then show "chat self send1 message rt
          = (Inl (raise_error_message e),
             self\<lparr>chat_history := chat_history self @ [user_turn message]\<rparr>)"
    using chat_failed [OF c, of send1 message e] by (simp add: chat_appended_def)
next
  assume c: "chat_checks self rt = Inr ()"
  assume a: "send2 (chat_payload (chat_appended self message)) = Returns rs2 \<and> \<not> ok rs2"
  then obtain e2 where "raise_for_status rs2 = Some e2" using not_ok_raises by blast
  with a have "chat self send2 message rt = (Inl (raise_error_message e2), chat_appended self message)"
    using chat_failed [OF c, of send2 message e2] by simp
  then show "\<exists>err. chat self send2 message rt
          = (Inl err, self\<lparr>chat_history := chat_history self @ [user_turn message]\<rparr>)"
    by (simp add: chat_appended_def)
next
  assume c: "chat_checks self rt = Inr ()"
  assume a: "send3 (chat_payload (chat_appended self message)) = Returns rs3 \<and> ok rs3
        \<and> body_json rs3 = Some j \<and> content_path j = Inr c \<and> truthy c"
  then have r: "snd (chat self send3 message rt)
     = self\<lparr>chat_history := chat_history self @ [user_turn message, assistant_turn c]\<rparr>
   \<and> (rt = AsValue (PStr ''llm_response'') \<longrightarrow> fst (chat self send3 message rt) = Inr (ValueView c))"
    using chat_answered [OF c, of send3 message rs3 j c] by simp
  then show "snd (chat self send3 message rt)
          = self\<lparr>chat_history := chat_history self @ [user_turn message, assistant_turn c]\<rparr>"
    by simp
  from r show "length (chat_history (snd (chat self send3 message rt))) = length (chat_history self) + 2"
    by simp
  {
    assume "rt = AsValue (PStr ''llm_response'')"
    with r show "fst (chat self send3 message rt) = Inr (ValueView c)" by simp
  }
next
  assume c: "chat_checks self rt = Inr ()"
  assume a: "send4 (chat_payload (chat_appended self message)) = Returns rs4 \<and> ok rs4
        \<and> format_response rs4 = Inr f4 \<and> \<not> truthy (llm_response f4)"
  then have r: "snd (chat self send4 message rt)
       = self\<lparr>chat_history := chat_history self @ [user_turn message]\<rparr>
     \<and> (rt = AsValue (PStr ''llm_response'')
          \<longrightarrow> fst (chat self send4 message rt) = Inr (ValueView (llm_response f4)))"
    using chat_empty_answer [OF c, of send4 message rs4 f4] by simp
  then show "snd (chat self send4 message rt)
          = self\<lparr>chat_history := chat_history self @ [user_turn message]\<rparr>"
    by simp
  {
    assume "rt = AsValue (PStr ''llm_response'')"
    with r show "fst (chat self send4 message rt) = Inr (ValueView (llm_response f4))" by simp
  }
next
  assume c: "chat_checks self rt = Inr ()"
  assume "send5 (chat_payload (chat_appended self message)) = Returns rs5 \<and> ok rs5
        \<and> format_response rs5 = Inl err5"
  then show "chat self send5 message rt
          = (Inl err5, self\<lparr>chat_history := chat_history self @ [user_turn message]\<rparr>)"
    using chat_format_error [OF c, of send5 message rs5 err5] by simp
next
  assume c: "chat_checks self rt = Inr ()"
  then show "\<exists>suf. chat_history (snd (chat self send6 message rt))
          = chat_history self @ [user_turn message] @ suf \<and> length suf \<le> 1"
    by (rule chat_suffix)
next
  show "auth_token (snd (chat self send6 message rt)) = auth_token self"
    using chat_frame [of self send6 message rt] by simp
  show "model (snd (chat self send6 message rt)) = model self"
    using chat_frame [of self send6 message rt] by simp
  show "system_role (snd (chat self send6 message rt)) = system_role self"
    using chat_frame [of self send6 message rt] by simp
  show "private_config (snd (chat self send6 message rt)) = private_config self"
    by (rule chat_private)
next
  assume "chat_checks self7 rt7 = Inl e7"
  then show "chat self7 send7 message7 rt7 = (Inl e7, self7)"
    by (rule chat_checks_fail)
qed

theorem chat_appends_user_turn_witness:
  "(\<exists>m. chat test_client send_timeout ''hi'' (AsValue (PStr ''llm_response''))
      = (Inl (PerplexityAPIError m None),
         test_client\<lparr>chat_history := chat_history test_client @ [user_turn ''hi'']\<rparr>))
   \<and> (\<exists>err. chat test_client (send_status 500) ''hi'' (AsValue (PStr ''llm_response''))
      = (Inl err, test_client\<lparr>chat_history := chat_history test_client @ [user_turn ''hi'']\<rparr>))
   \<and> chat test_client send_answer ''hi'' (AsValue (PStr ''llm_response''))
      = (Inr (ValueView (PStr ''X'')),
         test_client\<lparr>chat_history := chat_history test_client
            @ [user_turn ''hi'', assistant_turn (PStr ''X'')]\<rparr>)
   \<and> chat test_client send_empty_answer ''hi'' (AsValue (PStr ''llm_response''))
      = (Inr (ValueView (PStr [])),
         test_client\<lparr>chat_history := chat_history test_client @ [user_turn ''hi'']\<rparr>)
   \<and> chat test_client send_no_choices ''hi'' (AsValue (PStr ''llm_response''))
      = (Inl IndexError,
         test_client\<lparr>chat_history := chat_history test_client @ [user_turn ''hi'']\<rparr>)
   \<and> chat (test_client\<lparr>model := []\<rparr>) send_answer ''hi'' (AsValue (PStr ''llm_response''))
      = (Inl (PerplexityConfigError [Lit ''Model name is required''] None),
         test_client\<lparr>model := []\<rparr>)"
proof -
  have c: "chat_checks test_client (AsValue (PStr ''llm_response'')) = Inr ()"
    by (simp add: eval_defs)
  have c7: "chat_checks (test_client\<lparr>model := []\<rparr>) (AsValue (PStr ''llm_response''))
      = Inl (PerplexityConfigError [Lit ''Model name is required''] None)"
    by (simp add: eval_defs)
  have f4: "format_response empty_answer_response
      = Inr \<lparr>raw = empty_answer_response, text_view = body_text empty_answer_response,
             json_view = PDict [(''choices'',
                    PList [PDict [(''message'', PDict [(''content'', PStr [])])]])],
             llm_response = PStr []\<rparr>"
    by (simp add: format_response_def content_path_def empty_answer_response_def)
  have f5: "format_response no_choices_response = Inl IndexError"
    by (simp add: format_response_def content_path_def no_choices_response_def)
  note t = chat_appends_user_turn [of test_client "AsValue (PStr ''llm_response'')"
      send_timeout "''hi''" "\<lparr>exc_str = [Lit ''Read timed out.''], exc_response = None\<rparr>"
      "send_status 500" "error_response 500"
      send_answer answer_response
      "PDict [(''choices'', PList [PDict [(''message'', PDict [(''content'', PStr ''X'')])]])]"
      "PStr ''X''"
      send_empty_answer empty_answer_response
      "\<lparr>raw = empty_answer_response, text_view = body_text empty_answer_response,
        json_view = PDict [(''choices'',
                    PList [PDict [(''message'', PDict [(''content'', PStr [])])]])],
        llm_response = PStr []\<rparr>"
      send_no_choices no_choices_response IndexError
      send_answer
      "test_client\<lparr>model := []\<rparr>" "AsValue (PStr ''llm_response'')"
      "PerplexityConfigError [Lit ''Model name is required''] None"
      send_answer "''hi''"]
  have 1: "\<exists>m. chat test_client send_timeout ''hi'' (AsValue (PStr ''llm_response''))
      = (Inl (PerplexityAPIError m None),
         test_client\<lparr>chat_history := chat_history test_client @ [user_turn ''hi'']\<rparr>)"
    using t c by (simp add: send_timeout_def raise_error_message_def)
  have 2: "\<exists>err. chat test_client (send_status 500) ''hi'' (AsValue (PStr ''llm_response''))
      = (Inl err, test_client\<lparr>chat_history := chat_history test_client @ [user_turn ''hi'']\<rparr>)"
    using t c by (simp add: send_status_def error_response_def ok_def raise_for_status_def)
  have "snd (chat test_client send_answer ''hi'' (AsValue (PStr ''llm_response'')))
          = test_client\<lparr>chat_history := chat_history test_client
              @ [user_turn ''hi'', assistant_turn (PStr ''X'')]\<rparr>
        \<and> fst (chat test_client send_answer ''hi'' (AsValue (PStr ''llm_response'')))
          = Inr (ValueView (PStr ''X''))"
    using t c by (simp add: send_answer_def answer_response_def ok_def raise_for_status_def
        content_path_def)
  then have 3: "chat test_client send_answer ''hi'' (AsValue (PStr ''llm_response''))
      = (Inr (ValueView (PStr ''X'')),
         test_client\<lparr>chat_history := chat_history test_client
            @ [user_turn ''hi'', assistant_turn (PStr ''X'')]\<rparr>)"
    by (simp add: prod_eq_iff)
  have ok4: "ok empty_answer_response"
    by (simp add: ok_def raise_for_status_def empty_answer_response_def)
  have "snd (chat test_client send_empty_answer ''hi'' (AsValue (PStr ''llm_response'')))
          = test_client\<lparr>chat_history := chat_history test_client @ [user_turn ''hi'']\<rparr>
        \<and> fst (chat test_client send_empty_answer ''hi'' (AsValue (PStr ''llm_response'')))
          = Inr (ValueView (PStr []))"
    using t c f4 ok4 by (simp add: send_empty_answer_def)
  then have 4: "chat test_client send_empty_answer ''hi'' (AsValue (PStr ''llm_response''))
      = (Inr (ValueView (PStr [])),
         test_client\<lparr>chat_history := chat_history test_client @ [user_turn ''hi'']\<rparr>)"
    by (simp add: prod_eq_iff)
  have ok5: "ok no_choices_response"
    by (simp add: ok_def raise_for_status_def no_choices_response_def)
  have 5: "chat test_client send_no_choices ''hi'' (AsValue (PStr ''llm_response''))
      = (Inl IndexError,
         test_client\<lparr>chat_history := chat_history test_client @ [user_turn ''hi'']\<rparr>)"
    using t c f5 ok5 by (simp add: send_no_choices_def)
  have 6: "chat (test_client\<lparr>model := []\<rparr>) send_answer ''hi'' (AsValue (PStr ''llm_response''))
      = (Inl (PerplexityConfigError [Lit ''Model name is required''] None),
         test_client\<lparr>model := []\<rparr>)"
    using t c7 by simp
  from 1 2 3 4 5 6 show ?thesis by blast
qed

text \<open>
  C7: a call \<open>ask(message, append_history=False)\<close> leaves the client, and so the length
  of its chat history, as it was, whatever the other arguments and the server do and
  whether the call returns or raises.
\<close>

theorem ask_without_append_keeps_history:
  "snd (ask self send message m r False rt kw) = self
   \<and> length (chat_history (snd (ask self send message m r False rt kw))) = length (chat_history self)"
  by (simp add: ask_def Let_def split: sum.splits outcome.splits option.splits)

end
